theory Spec2Isabelle
  imports Complex_Main "HOL-Library.AList" "HOL-Library.Sublist"
begin

section \<open>Posts and the progress tracker (twitter\_scraper.py)\<close>

text \<open>
  Every collector of \<^verbatim>\<open>twitter_scraper.py\<close> builds its posts as dictionaries with the
  same eleven keys, so a post is a record. Python floats are idealised as rationals
  (finite values, exact arithmetic).
\<close>

record post =
  platform :: string
  post_id :: string
  title :: string
  author :: string
  date :: string
  latitude :: rat
  longitude :: rat
  location_name :: string
  tags :: string
  views :: int
  url :: string

text \<open>
  \<^verbatim>\<open>ProgressTracker\<close>: \<^verbatim>\<open>collected\<close> is a dict from source name to count, kept as an
  association list in insertion order; \<^verbatim>\<open>seen_ids\<close> is a set of strings. The start time
  and the path of the checkpoint file play no part in what follows.
\<close>

record tracker =
  collected :: "(string \<times> int) list"
  seen_ids :: "string set"

text \<open>\<^verbatim>\<open>self.collected.get(source, 0)\<close>\<close>

definition collected_get :: "tracker \<Rightarrow> string \<Rightarrow> int" where
  "collected_get tr source = (case map_of (collected tr) source of None \<Rightarrow> 0 | Some c \<Rightarrow> c)"

text \<open>
  \<^verbatim>\<open>
  def update(self, source, count, new_ids):
      self.collected[source] = self.collected.get(source, 0) + count
      self.seen_ids.update(new_ids)
  \<close>
\<close>

definition update :: "string \<Rightarrow> int \<Rightarrow> string set \<Rightarrow> tracker \<Rightarrow> tracker" where
  "update source count new_ids tr =
     tr\<lparr>collected := AList.update source (collected_get tr source + count) (collected tr),
        seen_ids := seen_ids tr \<union> new_ids\<rparr>"

text \<open>\<^verbatim>\<open>get_total\<close>: \<^verbatim>\<open>sum(self.collected.values())\<close>\<close>

definition get_total :: "tracker \<Rightarrow> int" where
  "get_total tr = sum_list (map snd (collected tr))"

section \<open>The collectors' batches\<close>

text \<open>
  A future of the thread pool either raised or returned the posts of one fetch. The
  futures are taken in the order in which \<^verbatim>\<open>as_completed\<close> yields them; that order and
  the results are the network's, so they are an input of the model.
\<close>

datatype 'a outcome = Raised | Returned 'a

text \<open>
  \<^verbatim>\<open>
  for future in as_completed(futures):
      try:
          posts.extend(future.result())
          if len(posts) >= limit:
              break
      except Exception as e:
          continue
  \<close>
  with \<^verbatim>\<open>limit = batch_size\<close> for Reddit and \<^verbatim>\<open>batch_size * 2\<close> for Wikipedia. The
  grid loop of the OpenStreetMap collector has the same shape (the fetch of a cell never
  raises, and the two nested loops stop at the first cell that reaches the limit).
\<close>

fun gather :: "int \<Rightarrow> post list outcome list \<Rightarrow> post list \<Rightarrow> post list" where
  "gather limit [] posts = posts"
| "gather limit (Raised # fs) posts = gather limit fs posts"
| "gather limit (Returned r # fs) posts =
     (let posts' = posts @ r
      in if limit \<le> int (length posts') then posts' else gather limit fs posts')"

text \<open>
  The deduplication loop shared by the Reddit, Wikipedia and OpenStreetMap collectors,
  \<^verbatim>\<open>pre\<close> being \<^verbatim>\<open>reddit_\<close>, \<^verbatim>\<open>wiki_\<close> or \<^verbatim>\<open>osm_\<close>:
  \<^verbatim>\<open>
  unique_posts = []
  new_ids = set()
  for post in posts:
      post_id = f"reddit_{post['post_id']}"
      if post_id not in self.tracker.seen_ids:
          unique_posts.append(post)
          new_ids.add(post_id)
  \<close>
  The membership test reads the tracker's set, which the loop does not change.
\<close>

fun dedup_loop ::
  "string \<Rightarrow> string set \<Rightarrow> post list \<Rightarrow> post list \<Rightarrow> string set \<Rightarrow> post list \<times> string set"
where
  "dedup_loop pre seen [] unique_posts new_ids = (unique_posts, new_ids)"
| "dedup_loop pre seen (p # ps) unique_posts new_ids =
     (if pre @ post_id p \<notin> seen
      then dedup_loop pre seen ps (unique_posts @ [p]) (insert (pre @ post_id p) new_ids)
      else dedup_loop pre seen ps unique_posts new_ids)"

text \<open>Python's slice \<^verbatim>\<open>xs[:n]\<close>; a negative \<^verbatim>\<open>n\<close> counts from the end.\<close>

definition slice_to :: "int \<Rightarrow> 'a list \<Rightarrow> 'a list" where
  "slice_to n xs = (if 0 \<le> n then take (nat n) xs else take (length xs - nat (- n)) xs)"

text \<open>
  The part of \<^verbatim>\<open>collect_batch\<close> after the fetches, the same in the three collectors:
  \<^verbatim>\<open>
  self.tracker.update('reddit', len(unique_posts), new_ids)
  return unique_posts[:batch_size]
  \<close>
\<close>

definition dedup_and_track ::
  "string \<Rightarrow> string \<Rightarrow> post list \<Rightarrow> int \<Rightarrow> tracker \<Rightarrow> post list \<times> tracker"
where
  "dedup_and_track source pre posts batch_size tr =
     (case dedup_loop pre (seen_ids tr) posts [] {} of
        (unique_posts, new_ids) \<Rightarrow>
          (slice_to batch_size unique_posts,
           update source (int (length unique_posts)) new_ids tr))"

text \<open>\<^verbatim>\<open>RedditGermanyMassCollector.collect_batch\<close>\<close>

definition reddit_collect_batch ::
  "post list outcome list \<Rightarrow> int \<Rightarrow> tracker \<Rightarrow> post list \<times> tracker"
where
  "reddit_collect_batch futures batch_size tr =
     dedup_and_track ''reddit'' ''reddit_'' (gather batch_size futures []) batch_size tr"

text \<open>\<^verbatim>\<open>WikipediaGermanyMassCollector.collect_batch\<close>\<close>

definition wikipedia_collect_batch ::
  "post list outcome list \<Rightarrow> int \<Rightarrow> tracker \<Rightarrow> post list \<times> tracker"
where
  "wikipedia_collect_batch futures batch_size tr =
     dedup_and_track ''wikipedia'' ''wiki_'' (gather (batch_size * 2) futures []) batch_size tr"

text \<open>
  \<^verbatim>\<open>OSMGermanyMassCollector.collect_batch\<close>; \<^verbatim>\<open>cells\<close> are the results of
  \<^verbatim>\<open>_fetch_changesets\<close> for the grid cells in the order of the two loops.
\<close>

definition osm_collect_batch :: "post list list \<Rightarrow> int \<Rightarrow> tracker \<Rightarrow> post list \<times> tracker" where
  "osm_collect_batch cells batch_size tr =
     dedup_and_track ''osm'' ''osm_'' (gather (batch_size * 2) (map Returned cells) []) batch_size tr"

subsection \<open>The generators\<close>

text \<open>Python's \<^verbatim>\<open>str\<close> of an integer.\<close>

definition digit_char :: "nat \<Rightarrow> char" where
  "digit_char d = ''0123456789'' ! d"

fun digits10 :: "nat \<Rightarrow> string" where
  "digits10 n =
     (if n < 10 then [digit_char n] else digits10 (n div 10) @ [digit_char (n mod 10)])"

declare digits10.simps [simp del]

definition str_int :: "int \<Rightarrow> string" where
  "str_int i = (if i < 0 then CHR ''-'' # digits10 (nat (- i)) else digits10 (nat i))"

text \<open>
  Python's \<^verbatim>\<open>round(x, 6)\<close> on the idealised floats: the nearest multiple of
  \<open>10\<^sup>-\<^sup>6\<close>, a tie going to the even one.
\<close>

definition round_half_even :: "rat \<Rightarrow> int" where
  "round_half_even x =
     (let f = \<lfloor>x\<rfloor>; r = x - of_int f
      in if r < 1 / 2 then f else if 1 / 2 < r then f + 1 else if even f then f else f + 1)"

definition round6 :: "rat \<Rightarrow> rat" where
  "round6 x = of_int (round_half_even (x * 1000000)) / 1000000"

text \<open>
  A Python float as a value that code may be handed: a finite number (idealised as an
  exact rational), or one of \<^verbatim>\<open>nan\<close>, \<^verbatim>\<open>inf\<close>, \<^verbatim>\<open>-inf\<close>. \<^verbatim>\<open>round(x, 6)\<close> returns the
  three of them unchanged.
\<close>

datatype pyfloat = Finite rat | NaN | PosInf | NegInf

fun round6f :: "pyfloat \<Rightarrow> pyfloat" where
  "round6f (Finite x) = Finite (round6 x)"
| "round6f NaN = NaN"
| "round6f PosInf = PosInf"
| "round6f NegInf = NegInf"

text \<open>
  What one pass of a generator's loop draws from \<^verbatim>\<open>random\<close> and reads from the clock:
  the fields built from the random choices, the chosen city's key, and the values of
  \<^verbatim>\<open>int(time.time()*1000)\<close> and \<^verbatim>\<open>int(time.time())\<close> at that pass.
\<close>

record draw =
  d_title :: string
  d_author :: string
  d_date :: string
  d_lat :: rat
  d_lon :: rat
  d_location_name :: string
  d_tags :: string
  d_views :: int
  d_city_key :: string
  d_millis :: int
  d_seconds :: int

text \<open>
  The body of the loop of \<^verbatim>\<open>GermanEventsMassGenerator.generate_batch\<close>:
  \<^verbatim>\<open>
  event_id = f"evt_{int(time.time()*1000)}_{i}"
  post = {'platform': 'German Events', 'post_id': event_id, ...,
          'latitude': round(lat, 6), 'longitude': round(lon, 6), ...,
          'url': f"https://events.de/{city_key}/{event_id}"}
  \<close>
\<close>

definition event_post :: "draw \<Rightarrow> int \<Rightarrow> post" where
  "event_post d i =
     (let event_id = ''evt_'' @ str_int (d_millis d) @ ''_'' @ str_int i
      in \<lparr>platform = ''German Events'', post_id = event_id, title = d_title d,
          author = d_author d, date = d_date d, latitude = round6 (d_lat d),
          longitude = round6 (d_lon d), location_name = d_location_name d,
          tags = d_tags d, views = d_views d,
          url = ''https://events.de/'' @ d_city_key d @ ''/'' @ event_id\<rparr>)"

text \<open>
  \<^verbatim>\<open>
  def generate_batch(self, batch_size):
      posts = []
      for i in range(batch_size): ... posts.append(post)
      new_ids = {f"event_{p['post_id']}" for p in posts}
      self.tracker.update('events', len(posts), new_ids)
      return posts
  \<close>
  \<^verbatim>\<open>draws i\<close> is what pass \<^verbatim>\<open>i\<close> draws.
\<close>

definition generate_batch :: "(nat \<Rightarrow> draw) \<Rightarrow> int \<Rightarrow> tracker \<Rightarrow> post list \<times> tracker" where
  "generate_batch draws batch_size tr =
     (let posts = map (\<lambda>i. event_post (draws i) (int i)) [0..<nat batch_size];
          new_ids = set (map (\<lambda>p. ''event_'' @ post_id p) posts)
      in (posts, update ''events'' (int (length posts)) new_ids tr))"

text \<open>The body of the loop of \<^verbatim>\<open>GermanNewsMassCollector.collect_batch\<close>.\<close>

definition news_post :: "draw \<Rightarrow> int \<Rightarrow> post" where
  "news_post d i =
     \<lparr>platform = ''German News'',
      post_id = ''news_'' @ str_int (d_millis d) @ ''_'' @ str_int i,
      title = take 200 (d_title d), author = d_author d, date = d_date d,
      latitude = d_lat d, longitude = d_lon d, location_name = d_location_name d,
      tags = d_tags d, views = d_views d,
      url = ''https://news.de/article/'' @ str_int (d_seconds d) @ ''_'' @ str_int i\<rparr>"

definition news_collect_batch :: "(nat \<Rightarrow> draw) \<Rightarrow> int \<Rightarrow> tracker \<Rightarrow> post list \<times> tracker" where
  "news_collect_batch draws batch_size tr =
     (let posts = map (\<lambda>i. news_post (draws i) (int i)) [0..<nat batch_size];
          new_ids = set (map (\<lambda>p. ''news_'' @ post_id p) posts)
      in (posts, update ''news'' (int (length posts)) new_ids tr))"

subsection \<open>The final merge\<close>

text \<open>
  \<^verbatim>\<open>merge_all_csvs\<close> reads the rows of the batch files back (every field a string; only
  \<^verbatim>\<open>platform\<close> and \<^verbatim>\<open>post_id\<close> are looked at) and removes duplicates:
  \<^verbatim>\<open>
  seen = set()
  unique_rows = []
  for row in all_rows:
      key = f"{row['platform']}_{row['post_id']}"
      if key not in seen:
          seen.add(key)
          unique_rows.append(row)
  \<close>
\<close>

record csv_line =
  l_platform :: string
  l_post_id :: string
  l_others :: "string list"

definition line_key :: "csv_line \<Rightarrow> string" where
  "line_key row = l_platform row @ ''_'' @ l_post_id row"

fun merge_loop :: "csv_line list \<Rightarrow> string set \<Rightarrow> csv_line list \<Rightarrow> csv_line list" where
  "merge_loop [] seen unique_rows = unique_rows"
| "merge_loop (row # rows) seen unique_rows =
     (if line_key row \<notin> seen
      then merge_loop rows (insert (line_key row) seen) (unique_rows @ [row])
      else merge_loop rows seen unique_rows)"

definition merge_unique_rows :: "csv_line list \<Rightarrow> csv_line list" where
  "merge_unique_rows all_rows = merge_loop all_rows {} []"

subsection \<open>Example values\<close>

text \<open>The tracker as \<^verbatim>\<open>ProgressTracker.__init__\<close> sets it up before a checkpoint is loaded.\<close>

definition init_tracker :: tracker where
  "init_tracker = \<lparr>collected = [], seen_ids = {}\<rparr>"

definition reddit_post :: "string \<Rightarrow> string \<Rightarrow> post" where
  "reddit_post pid ttl =
     \<lparr>platform = ''Reddit'', post_id = pid, title = ttl, author = ''deleted'',
      date = ''2024-05-01T12:00:00'', latitude = 5252 / 100, longitude = 134 / 10,
      location_name = ''Berlin'', tags = ''reddit,berlin,hot'', views = 7,
      url = ''https://reddit.com/r/berlin/'' @ pid\<rparr>"

definition concert_draw :: draw where
  "concert_draw =
     \<lparr>d_title = ''Konzert in Berlin - May 2024'', d_author = ''Veranstalter_100'',
      d_date = ''2024-05-01T12:00:00'', d_lat = 5252 / 100, d_lon = 134 / 10,
      d_location_name = ''Berlin, Berlin'', d_tags = ''event,music,berlin'', d_views = 50,
      d_city_key = ''berlin'', d_millis = 5000, d_seconds = 5\<rparr>"

section \<open>The Autobahn scrapers (bast.py, bast\_traffic.py)\<close>

text \<open>
  What \<^verbatim>\<open>response.json()\<close> returns. A JSON object is the Python dict it is parsed
  into, a number with a fraction or an exponent (or one of the literals \<^verbatim>\<open>NaN\<close>,
  \<^verbatim>\<open>Infinity\<close>, which Python's parser accepts) a float.
\<close>

datatype json =
    JNull
  | JBool bool
  | JInt int
  | JFloat pyfloat
  | JStr string
  | JArr "json list"
  | JObj "(string \<times> json) list"

datatype py_error =
  TypeError | KeyError | AttributeError | ValueError | OverflowError | RequestException

text \<open>\<^verbatim>\<open>d.get(key, default)\<close> on a dict.\<close>

definition dict_get :: "(string \<times> json) list \<Rightarrow> string \<Rightarrow> json \<Rightarrow> json" where
  "dict_get d k dflt = (case map_of d k of None \<Rightarrow> dflt | Some v \<Rightarrow> v)"

text \<open>Python's truth value of a parsed JSON value.\<close>

fun truthy :: "json \<Rightarrow> bool" where
  "truthy JNull = False"
| "truthy (JBool b) = b"
| "truthy (JInt i) = (i \<noteq> 0)"
| "truthy (JFloat x) = (x \<noteq> Finite 0)"
| "truthy (JStr s) = (s \<noteq> [])"
| "truthy (JArr xs) = (xs \<noteq> [])"
| "truthy (JObj kvs) = (kvs \<noteq> [])"

text \<open>
  \<^verbatim>\<open>
  def _determine_severity(self, details):
      text = (details.get('title', '') + ' ' + details.get('subtitle', '')).lower()
      if any(word in text for word in ['gefahr', 'danger', 'unfall', 'accident', 'vollsperrung']):
          return 5
      elif any(word in text for word in ['stau', 'congestion', 'verzoegerung']):
          return 3
      elif details.get('isRoadworks'):
          return 2
      else:
          return 1
  \<close>
  (the last keyword of the second list is written with o-umlaut in the source, two bytes
  in UTF-8). Strings are byte strings, \<^verbatim>\<open>word in text\<close> is \<^const>\<open>sublist\<close>. Adding a
  string to a value that is not a string raises \<^verbatim>\<open>TypeError\<close>. Python's \<^verbatim>\<open>str.lower\<close> is
  a parameter of the model.
\<close>

definition severity_text :: "(string \<Rightarrow> string) \<Rightarrow> (string \<times> json) list \<Rightarrow> py_error + string" where
  "severity_text lower details =
     (case dict_get details ''title'' (JStr '''') of
        JStr t \<Rightarrow>
          (case dict_get details ''subtitle'' (JStr '''') of
             JStr s \<Rightarrow> Inr (lower (t @ '' '' @ s))
           | _ \<Rightarrow> Inl TypeError)
      | _ \<Rightarrow> Inl TypeError)"

definition determine_severity :: "(string \<Rightarrow> string) \<Rightarrow> (string \<times> json) list \<Rightarrow> py_error + int" where
  "determine_severity lower details =
     (case severity_text lower details of
        Inl e \<Rightarrow> Inl e
      | Inr txt \<Rightarrow>
          Inr (if list_ex (\<lambda>word. sublist word txt)
                    [''gefahr'', ''danger'', ''unfall'', ''accident'', ''vollsperrung'']
               then 5
               else if list_ex (\<lambda>word. sublist word txt)
                    [''stau'', ''congestion'', ''verz'' @ [CHR 0xC3, CHR 0xB6] @ ''gerung'']
               then 3
               else if truthy (dict_get details ''isRoadworks'' JNull) then 2
               else 1))"

subsection \<open>List endpoint, then one detail call per item\<close>

text \<open>
  The outcome of one \<^verbatim>\<open>requests.get\<close>: it raises (a timeout, a refused connection), or
  it returns a response with a status code and a body; the body is \<^const>\<open>None\<close> when
  \<^verbatim>\<open>response.json()\<close> raises on it. The network is an input of the model: the answer to
  the list call for a road, and the answer to the detail call for an identifier value.
\<close>

datatype http_result = Raises | Response int "json option"

type_synonym row = "(string \<times> json) list"

text \<open>
  The loop of \<^verbatim>\<open>BAStRealTimeTrafficScraper.get_webcam_locations\<close> (bast.py). It runs inside
  the function's only \<^verbatim>\<open>try\<close>, so whatever raises in it ends the loop; the function then
  logs the error and returns the webcams appended so far. The result pairs them with the
  error that was logged, if any.
  \<^verbatim>\<open>
  for webcam in data.get('webcam', []):
      detail_url = f"{self.autobahn_api_base}/details/webcam/{webcam['identifier']}"
      detail_response = requests.get(detail_url, headers=self.headers, timeout=30)
      if detail_response.status_code == 200:
          details = detail_response.json()
          coord = details.get('coordinate', {})
          webcams.append({'autobahn': autobahn, 'webcam_id': webcam.get('identifier'),
                          'title': details.get('title'), ...,
                          'latitude': coord.get('lat'), 'longitude': coord.get('long'), ...})
      time.sleep(0.2)
  \<close>
\<close>

definition webcam_row :: "string \<Rightarrow> json \<Rightarrow> row \<Rightarrow> row \<Rightarrow> row" where
  "webcam_row autobahn ident details coord =
     [(''autobahn'', JStr autobahn),
      (''webcam_id'', ident),
      (''title'', dict_get details ''title'' JNull),
      (''subtitle'', dict_get details ''subtitle'' JNull),
      (''latitude'', dict_get coord ''lat'' JNull),
      (''longitude'', dict_get coord ''long'' JNull),
      (''operator'', dict_get details ''operator'' JNull),
      (''direction'', dict_get details ''direction'' JNull),
      (''link_url'', dict_get details ''linkurl'' JNull),
      (''image_url'', dict_get details ''imageurl'' JNull)]"

fun webcam_loop ::
  "(json \<Rightarrow> http_result) \<Rightarrow> string \<Rightarrow> json list \<Rightarrow> row list \<Rightarrow> row list \<times> py_error option"
where
  "webcam_loop detail autobahn [] webcams = (webcams, None)"
| "webcam_loop detail autobahn (webcam # rest) webcams =
     (case webcam of
        JObj w \<Rightarrow>
          (case map_of w ''identifier'' of
             None \<Rightarrow> (webcams, Some KeyError)
           | Some ident \<Rightarrow>
               (case detail ident of
                  Raises \<Rightarrow> (webcams, Some RequestException)
                | Response status body \<Rightarrow>
                    if status = 200 then
                      (case body of
                         None \<Rightarrow> (webcams, Some ValueError)
                       | Some (JObj details) \<Rightarrow>
                           (case dict_get details ''coordinate'' (JObj []) of
                              JObj coord \<Rightarrow>
                                webcam_loop detail autobahn rest
                                  (webcams @ [webcam_row autobahn ident details coord])
                            | _ \<Rightarrow> (webcams, Some AttributeError))
                       | Some _ \<Rightarrow> (webcams, Some AttributeError))
                    else webcam_loop detail autobahn rest webcams))
      | _ \<Rightarrow> (webcams, Some TypeError))"

text \<open>
  \<^verbatim>\<open>get_webcam_locations\<close>: the list call, then the loop. Iterating over a value that is
  not a list raises \<^verbatim>\<open>TypeError\<close>, at once or (a non-empty string or dict) at the first
  item's \<^verbatim>\<open>webcam['identifier']\<close>.
\<close>

definition get_webcam_locations ::
  "(string \<Rightarrow> http_result) \<Rightarrow> (json \<Rightarrow> http_result) \<Rightarrow> string \<Rightarrow> row list \<times> py_error option"
where
  "get_webcam_locations list_call detail autobahn =
     (case list_call autobahn of
        Raises \<Rightarrow> ([], Some RequestException)
      | Response status body \<Rightarrow>
          if status = 200 then
            (case body of
               None \<Rightarrow> ([], Some ValueError)
             | Some (JObj data) \<Rightarrow>
                 (case dict_get data ''webcam'' (JArr []) of
                    JArr items \<Rightarrow> webcam_loop detail autobahn items []
                  | JStr s \<Rightarrow> ([], if s = [] then None else Some TypeError)
                  | JObj kvs \<Rightarrow> ([], if kvs = [] then None else Some TypeError)
                  | _ \<Rightarrow> ([], Some TypeError))
             | Some _ \<Rightarrow> ([], Some AttributeError))
          else ([], None))"

text \<open>
  The loop of \<^verbatim>\<open>EnhancedTrafficWarningScraper.get_traffic_warnings_detailed\<close>
  (bast\_traffic.py). Here every item is handled inside a \<^verbatim>\<open>try\<close> of its own, whose
  handler logs \<^verbatim>\<open>warning.get('identifier')\<close> and continues with the next item; only an
  item that is not a dict makes the handler itself raise, which ends the loop.
  \<^verbatim>\<open>process\<close> stands for \<^verbatim>\<open>_process_warning_details\<close>, the history lookup (which is
  made with the item's identifier and raises on one that cannot be hashed) and
  \<^verbatim>\<open>_enrich_warning_data\<close> applied to the details of one item: the record they build, or
  the error one of them raises.
\<close>

fun warning_loop ::
  "(json \<Rightarrow> http_result) \<Rightarrow> (json \<Rightarrow> json \<Rightarrow> py_error + 'w) \<Rightarrow> json list \<Rightarrow> 'w list
     \<Rightarrow> 'w list \<times> py_error option"
where
  "warning_loop detail process [] warnings = (warnings, None)"
| "warning_loop detail process (warning # rest) warnings =
     (case warning of
        JObj w \<Rightarrow>
          (case map_of w ''identifier'' of
             None \<Rightarrow> warning_loop detail process rest warnings
           | Some ident \<Rightarrow>
               (case detail ident of
                  Raises \<Rightarrow> warning_loop detail process rest warnings
                | Response status body \<Rightarrow>
                    if status = 200 then
                      (case body of
                         None \<Rightarrow> warning_loop detail process rest warnings
                       | Some details \<Rightarrow>
                           (case process ident details of
                              Inl e \<Rightarrow> warning_loop detail process rest warnings
                            | Inr warning_data \<Rightarrow>
                                warning_loop detail process rest (warnings @ [warning_data])))
                    else warning_loop detail process rest warnings))
      | _ \<Rightarrow> (warnings, Some AttributeError))"

text \<open>
  \<^verbatim>\<open>get_traffic_warnings_detailed\<close>: the list call, then the loop. A value under
  \<^verbatim>\<open>warning\<close> that is not a list has no length or, a non-empty string or dict, yields
  items that are not dicts.
\<close>

definition get_traffic_warnings_detailed ::
  "(string \<Rightarrow> http_result) \<Rightarrow> (json \<Rightarrow> http_result) \<Rightarrow> (json \<Rightarrow> json \<Rightarrow> py_error + 'w)
     \<Rightarrow> string \<Rightarrow> 'w list \<times> py_error option"
where
  "get_traffic_warnings_detailed list_call detail process highway =
     (case list_call highway of
        Raises \<Rightarrow> ([], Some RequestException)
      | Response status body \<Rightarrow>
          if status = 200 then
            (case body of
               None \<Rightarrow> ([], Some ValueError)
             | Some (JObj data) \<Rightarrow>
                 (case dict_get data ''warning'' (JArr []) of
                    JArr warning_items \<Rightarrow> warning_loop detail process warning_items []
                  | JStr s \<Rightarrow> ([], if s = [] then None else Some AttributeError)
                  | JObj kvs \<Rightarrow> ([], if kvs = [] then None else Some AttributeError)
                  | _ \<Rightarrow> ([], Some TypeError))
             | Some _ \<Rightarrow> ([], Some AttributeError))
          else ([], None))"

text \<open>
  What the loop of \<^verbatim>\<open>get_traffic_warnings_detailed\<close> makes of one item taken alone (used
  to state that the loop handles the items independently).
\<close>

definition warning_of_item ::
  "(json \<Rightarrow> http_result) \<Rightarrow> (json \<Rightarrow> json \<Rightarrow> py_error + 'w) \<Rightarrow> json \<Rightarrow> 'w option"
where
  "warning_of_item detail process item =
     (case item of
        JObj w \<Rightarrow>
          (case map_of w ''identifier'' of
             None \<Rightarrow> None
           | Some ident \<Rightarrow>
               (case detail ident of
                  Response status (Some details) \<Rightarrow>
                    (if status = 200
                     then (case process ident details of Inl e \<Rightarrow> None | Inr wd \<Rightarrow> Some wd)
                     else None)
                | _ \<Rightarrow> None))
      | _ \<Rightarrow> None)"

subsection \<open>Example network\<close>

definition three_items :: "json list" where
  "three_items =
     [JObj [(''identifier'', JStr ''X41'')],
      JObj [(''identifier'', JStr ''X42'')],
      JObj [(''identifier'', JStr ''X43'')]]"

definition cam_details :: json where
  "cam_details =
     JObj [(''title'', JStr ''A1 | AS Hamburg''),
           (''coordinate'',
            JObj [(''lat'', JFloat (Finite (5355 / 100))), (''long'', JFloat (Finite (999 / 100)))])]"

definition x42_times_out :: "json \<Rightarrow> http_result" where
  "x42_times_out ident = (if ident = JStr ''X42'' then Raises else Response 200 (Some cam_details))"

section \<open>The checkpoint file (twitter\_scraper.py)\<close>

text \<open>
  The JSON document of a checkpoint file as \<^verbatim>\<open>json.load\<close> returns it: an object whose
  keys \<^verbatim>\<open>collected\<close>, \<^verbatim>\<open>seen_ids\<close> and \<^verbatim>\<open>timestamp\<close> may each be missing (documents of
  another shape are outside the model). A file holds such a document, or it is torn: its
  text is empty or incomplete, and \<^verbatim>\<open>json.load\<close> raises on it.
\<close>

record checkpoint_doc =
  doc_collected :: "(string \<times> int) list option"
  doc_seen_ids :: "string list option"
  doc_timestamp :: "string option"

datatype file_content = Torn | Doc checkpoint_doc

text \<open>The disk: the files that exist, by path.\<close>

type_synonym disk = "string \<Rightarrow> file_content option"

text \<open>\<^verbatim>\<open>Path(Config.OUTPUT_DIR) / Config.CHECKPOINT_FILE\<close>\<close>

definition checkpoint_file :: string where
  "checkpoint_file = ''germany_data/collection_checkpoint.json''"

text \<open>
  \<^verbatim>\<open>
  def load_checkpoint(self):
      if self.checkpoint_file.exists():
          try:
              with open(self.checkpoint_file, 'r') as f:
                  data = json.load(f)
                  self.collected = data.get('collected', {})
                  self.seen_ids = set(data.get('seen_ids', []))
                  print(...)
          except:
              print("Could not load checkpoint, starting fresh")
  \<close>
\<close>

definition load_checkpoint :: "disk \<Rightarrow> tracker \<Rightarrow> tracker" where
  "load_checkpoint d tr =
     (case d checkpoint_file of
        None \<Rightarrow> tr
      | Some Torn \<Rightarrow> tr
      | Some (Doc data) \<Rightarrow>
          tr\<lparr>collected := (case doc_collected data of None \<Rightarrow> [] | Some c \<Rightarrow> c),
             seen_ids := set (case doc_seen_ids data of None \<Rightarrow> [] | Some ids \<Rightarrow> ids)\<rparr>)"

text \<open>
  \<^verbatim>\<open>
  checkpoint_data = {
      'collected': self.collected,
      'seen_ids': list(self.seen_ids)[:10000],  # Keep last 10k IDs for deduplication
      'timestamp': datetime.now().isoformat()
  }
  \<close>
  \<^verbatim>\<open>listing\<close> is \<^verbatim>\<open>list(self.seen_ids)\<close>, the elements of the set in the order in which
  Python happens to iterate over it, and \<^verbatim>\<open>now\<close> the time stamp.
\<close>

definition checkpoint_data :: "tracker \<Rightarrow> string list \<Rightarrow> string \<Rightarrow> checkpoint_doc" where
  "checkpoint_data tr listing now =
     \<lparr>doc_collected = Some (collected tr),
      doc_seen_ids = Some (take 10000 listing),
      doc_timestamp = Some now\<rparr>"

text \<open>
  What a program does to the disk. Opening a file for writing creates it or truncates it
  to the empty text; \<^verbatim>\<open>json.dump\<close> then writes the document into it. A rename moves a
  file over another (no function of the repository performs one).
\<close>

datatype fs_op = Open_w string | Dump string checkpoint_doc | Rename string string

fun apply_op :: "fs_op \<Rightarrow> disk \<Rightarrow> disk" where
  "apply_op (Open_w path) d = d(path := Some Torn)"
| "apply_op (Dump path data) d = d(path := Some (Doc data))"
| "apply_op (Rename src dst) d = (d(dst := d src))(src := None)"

definition run_ops :: "fs_op list \<Rightarrow> disk \<Rightarrow> disk" where
  "run_ops ops d = fold apply_op ops d"

text \<open>
  \<^verbatim>\<open>
  with open(self.checkpoint_file, 'w') as f:
      json.dump(checkpoint_data, f)
  \<close>
  An execution that is interrupted has performed a prefix of these operations; while the
  document is being written the file is torn.
\<close>

definition save_checkpoint_ops :: "tracker \<Rightarrow> string list \<Rightarrow> string \<Rightarrow> fs_op list" where
  "save_checkpoint_ops tr listing now =
     [Open_w checkpoint_file, Dump checkpoint_file (checkpoint_data tr listing now)]"

definition save_checkpoint :: "tracker \<Rightarrow> string list \<Rightarrow> string \<Rightarrow> disk \<Rightarrow> disk" where
  "save_checkpoint tr listing now d = run_ops (save_checkpoint_ops tr listing now) d"

subsection \<open>Example values\<close>

definition no_files :: disk where
  "no_files = (\<lambda>path. None)"

definition many_ids :: "string list" where
  "many_ids = map (\<lambda>n. replicate n CHR ''a'') [0..<10001]"

definition old_checkpoint :: checkpoint_doc where
  "old_checkpoint =
     \<lparr>doc_collected = Some [(''reddit'', 1)], doc_seen_ids = Some [''reddit_zzz''],
      doc_timestamp = Some ''2024-05-01T12:00:00''\<rparr>"

section \<open>The scheduler (twitter\_scraper.py, GermanyMassCollector)\<close>

text \<open>\<^verbatim>\<open>Config\<close>\<close>

definition TARGET_POSTS :: int where
  "TARGET_POSTS = 20000"

definition BATCH_SIZE :: int where
  "BATCH_SIZE = 1000"

definition SOURCE_DISTRIBUTION :: "(string \<times> int) list" where
  "SOURCE_DISTRIBUTION =
     [(''reddit'', 7000), (''wikipedia'', 4000), (''osm'', 3000), (''news'', 2000),
      (''events'', 4000)]"

text \<open>
  What the world supplies during one iteration of the main loop: the results of the
  fetches a collector makes when it is asked for a batch of a given size (for Reddit and
  Wikipedia the futures in the order of their completion, for OpenStreetMap the grid
  cells in the order of the loops), what the generators draw, and for the checkpoint the
  order in which the set of seen ids is listed and the time stamp.
\<close>

record batch_env =
  reddit_futures :: "int \<Rightarrow> post list outcome list"
  wikipedia_futures :: "int \<Rightarrow> post list outcome list"
  osm_cells :: "int \<Rightarrow> post list list"
  events_draws :: "nat \<Rightarrow> draw"
  news_draws :: "nat \<Rightarrow> draw"
  seen_listing :: "string list"
  timestamp :: string

text \<open>
  The chain of \<^verbatim>\<open>if\<close>/\<^verbatim>\<open>elif\<close> in the body of the \<^verbatim>\<open>for\<close> loop of
  \<^verbatim>\<open>collect_to_target\<close>, which picks the collector by the source's name
  (the test \<^verbatim>\<open>current_count < target_count\<close> repeated in each branch holds there already):
  \<^verbatim>\<open>
  if source == 'reddit' and current_count < target_count:
      posts = self.collectors['reddit'].collect_batch(needed)
      batch_posts.extend(posts)
  elif source == 'wikipedia' and ...:
      posts = self.collectors['wikipedia'].collect_batch(needed)
  elif source == 'osm' and ...:
      posts = self.collectors['osm'].collect_batch(needed)
  elif source == 'events' and ...:
      posts = self.collectors['events'].generate_batch(needed)
  elif source == 'news' and ...:
      posts = self.collectors['news'].collect_batch(needed)
  \<close>
  The result is \<^const>\<open>None\<close> when no branch is taken and no collector is called.
\<close>

definition collect_source ::
  "batch_env \<Rightarrow> string \<Rightarrow> int \<Rightarrow> tracker \<Rightarrow> (post list \<times> tracker) option"
where
  "collect_source e source needed tr =
     (if source = ''reddit'' then Some (reddit_collect_batch (reddit_futures e needed) needed tr)
      else if source = ''wikipedia''
        then Some (wikipedia_collect_batch (wikipedia_futures e needed) needed tr)
      else if source = ''osm'' then Some (osm_collect_batch (osm_cells e needed) needed tr)
      else if source = ''events'' then Some (generate_batch (events_draws e) needed tr)
      else if source = ''news'' then Some (news_collect_batch (news_draws e) needed tr)
      else None)"

text \<open>
  \<^verbatim>\<open>
  for source, target_count in Config.SOURCE_DISTRIBUTION.items():
      current_count = self.tracker.collected.get(source, 0)
      if current_count < target_count:
          needed = min(Config.BATCH_SIZE, target_count - current_count)
          ...
  \<close>
  \<^verbatim>\<open>needed\<close> is what the collector is called with.
\<close>

fun distribution_loop ::
  "batch_env \<Rightarrow> (string \<times> int) list \<Rightarrow> tracker \<Rightarrow> post list \<Rightarrow> post list \<times> tracker"
where
  "distribution_loop e [] tr batch_posts = (batch_posts, tr)"
| "distribution_loop e ((source, target_count) # rest) tr batch_posts =
     (let current_count = collected_get tr source
      in if current_count < target_count then
           (let needed = min BATCH_SIZE (target_count - current_count)
            in case collect_source e source needed tr of
                 None \<Rightarrow> distribution_loop e rest tr batch_posts
               | Some (posts, tr') \<Rightarrow> distribution_loop e rest tr' (batch_posts @ posts))
         else distribution_loop e rest tr batch_posts)"



text \<open>
  The state of \<^verbatim>\<open>GermanyMassCollector\<close> during \<^verbatim>\<open>collect_to_target\<close>. Of a batch file only
  the number of its batch is kept; its rows are the subject of \<^verbatim>\<open>save_batch\<close> below, which
  does not raise on the posts the collectors build.
\<close>

record scheduler =
  progress :: tracker
  all_posts :: "post list"
  csv_files :: "nat list"
  batch_num :: nat
  files :: disk

text \<open>
  One pass through the body of the \<^verbatim>\<open>while\<close> loop, up to the progress report:
  \<^verbatim>\<open>
  batch_num += 1
  batch_posts = []
  for source, target_count in Config.SOURCE_DISTRIBUTION.items(): ...
  if batch_posts:
      self.all_posts.extend(batch_posts)
      batch_filename = self.save_batch(batch_posts, batch_num)
      self.csv_files.append(batch_filename)
  self.tracker.save_checkpoint()
  self.tracker.print_progress()
  \<close>
\<close>

definition loop_body :: "(nat \<Rightarrow> batch_env) \<Rightarrow> scheduler \<Rightarrow> scheduler" where
  "loop_body env st =
     (let n = batch_num st + 1;
          e = env n
      in case distribution_loop e SOURCE_DISTRIBUTION (progress st) [] of
           (batch_posts, tr) \<Rightarrow>
             \<lparr>progress = tr,
              all_posts = (if batch_posts \<noteq> [] then all_posts st @ batch_posts else all_posts st),
              csv_files = (if batch_posts \<noteq> [] then csv_files st @ [n] else csv_files st),
              batch_num = n,
              files = save_checkpoint tr (seen_listing e) (timestamp e) (files st)\<rparr>)"

text \<open>
  The main loop of \<^verbatim>\<open>collect_to_target\<close>; the result is \<^const>\<open>None\<close> when it runs forever.
  \<^verbatim>\<open>
  while self.tracker.get_total() < Config.TARGET_POSTS:
      ... (the body above)
      if self.tracker.get_total() >= Config.TARGET_POSTS:
          break
      if batch_num % 10 == 0:
          time.sleep(Config.BATCH_DELAY)
  \<close>
  When the loop ends, \<^verbatim>\<open>collect_to_target\<close> merges the batch files and prints the
  statistics.
\<close>

partial_function (option) collect_loop :: "(nat \<Rightarrow> batch_env) \<Rightarrow> scheduler \<Rightarrow> scheduler option" where
  "collect_loop env st =
     (if get_total (progress st) < TARGET_POSTS then
        (if TARGET_POSTS \<le> get_total (progress (loop_body env st)) then Some (loop_body env st)
         else collect_loop env (loop_body env st))
      else Some st)"

subsection \<open>Example values\<close>

text \<open>A world in which every fetch comes back empty.\<close>

definition silent_env :: "nat \<Rightarrow> batch_env" where
  "silent_env n =
     \<lparr>reddit_futures = (\<lambda>size. []), wikipedia_futures = (\<lambda>size. []), osm_cells = (\<lambda>size. []),
      events_draws = (\<lambda>i. concert_draw), news_draws = (\<lambda>i. concert_draw),
      seen_listing = [], timestamp = ''2024-05-02T12:00:00''\<rparr>"

text \<open>The generators have filled their quotas, the other sources have nothing yet.\<close>

definition generators_done :: scheduler where
  "generators_done =
     \<lparr>progress = \<lparr>collected = [(''events'', 4000), (''news'', 2000)], seen_ids = {}\<rparr>,
      all_posts = [], csv_files = [], batch_num = 4, files = no_files\<rparr>"


text \<open>
  The progress of a run in which the generators are done and nothing else has come in.
\<close>

definition stalled :: "tracker \<Rightarrow> bool" where
  "stalled tr \<longleftrightarrow>
     collected_get tr ''reddit'' = 0 \<and> collected_get tr ''wikipedia'' = 0 \<and>
     collected_get tr ''osm'' = 0 \<and> collected_get tr ''news'' = 2000 \<and>
     collected_get tr ''events'' = 4000 \<and> get_total tr = 6000"

section \<open>Batch files (twitter\_scraper.py, save\_batch)\<close>

text \<open>
  \<^verbatim>\<open>save_batch\<close> takes its posts as dictionaries and reads them with \<^verbatim>\<open>.get\<close>, so here a
  post is a dictionary from keys to Python values, which are of the kinds of \<^typ>\<open>json\<close>.
  A Python \<^verbatim>\<open>str\<close> that the function builds is the list of its code points. Python's
  \<^verbatim>\<open>str\<close> of a value and its parsing of a string by \<^verbatim>\<open>float\<close> and \<^verbatim>\<open>int\<close> (\<^const>\<open>None\<close>
  when they raise \<^verbatim>\<open>ValueError\<close>; \<^verbatim>\<open>float\<close> parses \<^verbatim>\<open>nan\<close>, \<^verbatim>\<open>inf\<close> and numbers beyond the
  range of a float, which become \<^verbatim>\<open>inf\<close>) are parameters of the model.
\<close>

record builtins =
  str_of :: "json \<Rightarrow> nat list"
  float_of_str :: "string \<Rightarrow> pyfloat option"
  int_of_str :: "string \<Rightarrow> int option"

text \<open>
  \<^verbatim>\<open>float(x)\<close>. An integer converts when it rounds to a float, that is when its absolute
  value is below \<open>2\<^sup>1\<^sup>0\<^sup>2\<^sup>4 - 2\<^sup>9\<^sup>7\<^sup>0\<close>; beyond, \<^verbatim>\<open>float\<close> raises \<^verbatim>\<open>OverflowError\<close>.
\<close>

definition float_limit :: int where
  "float_limit = 2 ^ 1024 - 2 ^ 970"

fun py_float :: "builtins \<Rightarrow> json \<Rightarrow> py_error + pyfloat" where
  "py_float py JNull = Inl TypeError"
| "py_float py (JBool b) = Inr (Finite (if b then 1 else 0))"
| "py_float py (JInt i) =
     (if - float_limit < i \<and> i < float_limit then Inr (Finite (of_int i)) else Inl OverflowError)"
| "py_float py (JFloat x) = Inr x"
| "py_float py (JStr s) = (case float_of_str py s of None \<Rightarrow> Inl ValueError | Some x \<Rightarrow> Inr x)"
| "py_float py (JArr xs) = Inl TypeError"
| "py_float py (JObj kvs) = Inl TypeError"

text \<open>
  \<^verbatim>\<open>int(x)\<close>; a finite float is truncated towards zero, \<^verbatim>\<open>nan\<close> raises \<^verbatim>\<open>ValueError\<close> and
  an infinity \<^verbatim>\<open>OverflowError\<close>.
\<close>

fun py_int :: "builtins \<Rightarrow> json \<Rightarrow> py_error + int" where
  "py_int py JNull = Inl TypeError"
| "py_int py (JBool b) = Inr (if b then 1 else 0)"
| "py_int py (JInt i) = Inr i"
| "py_int py (JFloat (Finite r)) = Inr (if 0 \<le> r then \<lfloor>r\<rfloor> else \<lceil>r\<rceil>)"
| "py_int py (JFloat NaN) = Inl ValueError"
| "py_int py (JFloat PosInf) = Inl OverflowError"
| "py_int py (JFloat NegInf) = Inl OverflowError"
| "py_int py (JStr s) = (case int_of_str py s of None \<Rightarrow> Inl ValueError | Some i \<Rightarrow> Inr i)"
| "py_int py (JArr xs) = Inl TypeError"
| "py_int py (JObj kvs) = Inl TypeError"

text \<open>A row as it is handed to the CSV writer.\<close>

record csv_row =
  c_platform :: json
  c_post_id :: "nat list"
  c_title :: "nat list"
  c_author :: "nat list"
  c_date :: json
  c_latitude :: pyfloat
  c_longitude :: pyfloat
  c_location_name :: json
  c_tags :: json
  c_url :: json
  c_views_or_score :: int

text \<open>
  \<^verbatim>\<open>
  row = {
      'platform': post.get('platform', ''),
      'post_id': str(post.get('post_id', '')),
      'title': str(post.get('title', '')).replace('\n', ' ')[:200],
      'author': str(post.get('author', '')),
      'date': post.get('date', datetime.now().isoformat()),
      'latitude': round(float(post.get('latitude', 52.5200)), 6),
      'longitude': round(float(post.get('longitude', 13.4050)), 6),
      'location_name': post.get('location_name', 'Germany'),
      'tags': post.get('tags', ''),
      'url': post.get('url', ''),
      'views_or_score': int(post.get('views', post.get('score', 0)))
  }
  \<close>
  The entries are evaluated in this order, so the first of \<^verbatim>\<open>float\<close>, \<^verbatim>\<open>float\<close>, \<^verbatim>\<open>int\<close> that
  raises decides the error; \<^verbatim>\<open>now\<close> is \<^verbatim>\<open>datetime.now().isoformat()\<close>. The line feed is
  code point 10, the space code point 32.
\<close>

definition make_row :: "builtins \<Rightarrow> string \<Rightarrow> (string \<times> json) list \<Rightarrow> py_error + csv_row" where
  "make_row py now post =
     (case py_float py (dict_get post ''latitude'' (JFloat (Finite (5252 / 100)))) of
        Inl e \<Rightarrow> Inl e
      | Inr lat \<Rightarrow>
          (case py_float py (dict_get post ''longitude'' (JFloat (Finite (13405 / 1000)))) of
             Inl e \<Rightarrow> Inl e
           | Inr lon \<Rightarrow>
               (case py_int py (dict_get post ''views'' (dict_get post ''score'' (JInt 0))) of
                  Inl e \<Rightarrow> Inl e
                | Inr v \<Rightarrow>
                    Inr \<lparr>c_platform = dict_get post ''platform'' (JStr ''''),
                         c_post_id = str_of py (dict_get post ''post_id'' (JStr '''')),
                         c_title =
                           take 200
                             (map (\<lambda>c. if c = 10 then 32 else c)
                                (str_of py (dict_get post ''title'' (JStr '''')))),
                         c_author = str_of py (dict_get post ''author'' (JStr '''')),
                         c_date = dict_get post ''date'' (JStr now),
                         c_latitude = round6f lat,
                         c_longitude = round6f lon,
                         c_location_name = dict_get post ''location_name'' (JStr ''Germany''),
                         c_tags = dict_get post ''tags'' (JStr ''''),
                         c_url = dict_get post ''url'' (JStr ''''),
                         c_views_or_score = v\<rparr>)))"

text \<open>
  \<^verbatim>\<open>
  for post in posts:
      row = {...}
      writer.writerow(row)
  \<close>
  A post whose row cannot be built raises out of \<^verbatim>\<open>save_batch\<close>; the rows written before
  it are in the file. The result is the rows written and the error raised, if any.
\<close>

fun write_rows ::
  "builtins \<Rightarrow> string \<Rightarrow> (string \<times> json) list list \<Rightarrow> csv_row list
     \<Rightarrow> csv_row list \<times> py_error option"
where
  "write_rows py now [] written = (written, None)"
| "write_rows py now (post # posts) written =
     (case make_row py now post of
        Inl e \<Rightarrow> (written, Some e)
      | Inr row \<Rightarrow> write_rows py now posts (written @ [row]))"

definition save_batch ::
  "builtins \<Rightarrow> string \<Rightarrow> (string \<times> json) list list \<Rightarrow> csv_row list \<times> py_error option"
where
  "save_batch py now posts = write_rows py now posts []"

text \<open>The dictionary that a collector builds for a post.\<close>

definition post_dict :: "post \<Rightarrow> (string \<times> json) list" where
  "post_dict p =
     [(''platform'', JStr (platform p)), (''post_id'', JStr (post_id p)),
      (''title'', JStr (title p)), (''author'', JStr (author p)), (''date'', JStr (date p)),
      (''latitude'', JFloat (Finite (latitude p))),
      (''longitude'', JFloat (Finite (longitude p))),
      (''location_name'', JStr (location_name p)), (''tags'', JStr (tags p)),
      (''views'', JInt (views p)), (''url'', JStr (url p))]"

subsection \<open>Example values\<close>

definition plain_builtins :: builtins where
  "plain_builtins =
     \<lparr>str_of = (\<lambda>v. case v of JStr s \<Rightarrow> map of_char s | _ \<Rightarrow> []),
      float_of_str = (\<lambda>s. None),
      int_of_str = (\<lambda>s. None)\<rparr>"

definition bare_post :: "(string \<times> json) list" where
  "bare_post = [(''platform'', JStr ''Reddit''), (''post_id'', JStr ''abc'')]"

text \<open>
  A post whose latitude is the float \<^verbatim>\<open>nan\<close> (Python's JSON parser reads the literal
  \<^verbatim>\<open>NaN\<close> as that float).
\<close>

definition nan_post :: "(string \<times> json) list" where
  "nan_post =
     [(''platform'', JStr ''Wikipedia''), (''post_id'', JStr ''de_1''),
      (''latitude'', JFloat NaN), (''longitude'', JFloat (Finite (134 / 10)))]"

section \<open>Properties of the collectors' batches\<close>

lemmas collector_defs =
  reddit_collect_batch_def wikipedia_collect_batch_def osm_collect_batch_def
  dedup_and_track_def slice_to_def update_def collected_get_def



lemma collected_get_update:
  "collected_get (update source count new_ids tr) source = collected_get tr source + count"
  by (simp add: collected_get_def update_def update_conv')









text \<open>
  C6 at a failing input: two fetched posts share the post id \<^verbatim>\<open>abc\<close>, the Seen-Set is
  empty, and the Reddit batch returns both of them, the later one included.
\<close>

theorem reddit_batch_keeps_later_duplicate:
  "fst (reddit_collect_batch
          [Returned [reddit_post ''abc'' ''first'', reddit_post ''abc'' ''second'']] 1000
          init_tracker)
     = [reddit_post ''abc'' ''first'', reddit_post ''abc'' ''second''] \<and>
   post_id (reddit_post ''abc'' ''first'') = post_id (reddit_post ''abc'' ''second'') \<and>
   reddit_post ''abc'' ''first'' \<noteq> reddit_post ''abc'' ''second''"
  by (simp add: collector_defs init_tracker_def reddit_post_def)

text \<open>The final merge does keep the first row of every key only.\<close>

lemma merge_loop_distinct:
  "distinct (map line_key acc) \<Longrightarrow> line_key ` set acc \<subseteq> seen \<Longrightarrow>
   distinct (map line_key (merge_loop rows seen acc))"
proof (induction rows arbitrary: seen acc)
  case Nil
  then show ?case by simp
next
  case (Cons r rows)
  show ?case
  proof (cases "line_key r \<in> seen")
    case True
    then show ?thesis
      using Cons.IH [OF Cons.prems] by simp
  next
    case False
    have d: "distinct (map line_key (acc @ [r]))"
      using Cons.prems False by auto
    have s: "line_key ` set (acc @ [r]) \<subseteq> insert (line_key r) seen"
      using Cons.prems by auto
    from Cons.IH [OF d s] False show ?thesis
      by simp
  qed
qed

lemma merge_unique_rows_distinct: "distinct (map line_key (merge_unique_rows all_rows))"
  by (simp add: merge_unique_rows_def merge_loop_distinct)

lemma merge_unique_rows_first:
  "line_key r1 = line_key r2 \<Longrightarrow> merge_unique_rows [r1, r2] = [r1]"
  by (simp add: merge_unique_rows_def)

text \<open>
  C9: when the deduplicated records of a Reddit batch outnumber the requested batch size,
  the tracker's count for the source grows by the number of deduplicated records, while
  only the first \<^verbatim>\<open>batch_size\<close> of them are returned: the count grows by more than the
  number of records handed on.
\<close>

theorem collected_count_exceeds_emitted:
  assumes "dedup_loop ''reddit_'' (seen_ids tr) (gather batch_size futures []) [] {}
             = (unique_posts, new_ids)"
    and "0 \<le> batch_size"
    and "batch_size < int (length unique_posts)"
  shows "fst (reddit_collect_batch futures batch_size tr) = take (nat batch_size) unique_posts \<and>
         int (length (fst (reddit_collect_batch futures batch_size tr))) = batch_size \<and>
         collected_get (snd (reddit_collect_batch futures batch_size tr)) ''reddit''
           = collected_get tr ''reddit'' + int (length unique_posts) \<and>
         int (length (fst (reddit_collect_batch futures batch_size tr)))
           < collected_get (snd (reddit_collect_batch futures batch_size tr)) ''reddit''
              - collected_get tr ''reddit''"
  using assms
  by (simp add: reddit_collect_batch_def dedup_and_track_def slice_to_def collected_get_update)

theorem collected_count_exceeds_emitted_witness:
  "fst (reddit_collect_batch
          [Returned [reddit_post ''abc'' ''first'', reddit_post ''abd'' ''second'']] 1 init_tracker)
     = [reddit_post ''abc'' ''first''] \<and>
   collected_get (snd (reddit_collect_batch
          [Returned [reddit_post ''abc'' ''first'', reddit_post ''abd'' ''second'']] 1 init_tracker))
     ''reddit'' = 2"
proof -
  let ?futs = "[Returned [reddit_post ''abc'' ''first'', reddit_post ''abd'' ''second'']]"
  let ?unique = "[reddit_post ''abc'' ''first'', reddit_post ''abd'' ''second'']"
  have h1: "dedup_loop ''reddit_'' (seen_ids init_tracker) (gather 1 ?futs []) [] {}
              = (?unique, {''reddit_abc'', ''reddit_abd''})"
    by (simp add: init_tracker_def reddit_post_def insert_commute)
  have h2: "(0::int) \<le> 1" and h3: "1 < int (length ?unique)"
    by simp_all
  from collected_count_exceeds_emitted [OF h1 h2 h3] show ?thesis
    by (simp add: collected_get_def init_tracker_def)
qed

section \<open>Properties of the Autobahn scrapers\<close>

text \<open>
  C8: \<^verbatim>\<open>_determine_severity\<close> never returns 4. Whatever the details dictionary and
  whatever \<^verbatim>\<open>lower\<close> does, the function either raises \<^verbatim>\<open>TypeError\<close> (a title or subtitle
  that is not a string) or returns 1, 2, 3 or 5.
\<close>

theorem determine_severity_never_4:
  "determine_severity lower details \<noteq> Inr 4 \<and>
   (case determine_severity lower details of
      Inl e \<Rightarrow> e = TypeError
    | Inr s \<Rightarrow> s \<in> {1, 2, 3, 5})"
  by (simp add: determine_severity_def severity_text_def split: sum.splits json.splits)

lemma determine_severity_returns:
  "dict_get details ''title'' (JStr '''') = JStr t \<Longrightarrow>
   dict_get details ''subtitle'' (JStr '''') = JStr s \<Longrightarrow>
   \<exists>r. determine_severity lower details = Inr r"
  by (simp add: determine_severity_def severity_text_def)

lemma determine_severity_accident:
  "determine_severity (\<lambda>s. s) [(''title'', JStr ''unfall auf der A1'')] = Inr 5"
  by (simp add: determine_severity_def severity_text_def dict_get_def sublist_code prefix_code)

lemmas bast_defs =
  get_webcam_locations_def get_traffic_warnings_detailed_def dict_get_def three_items_def
  cam_details_def x42_times_out_def webcam_row_def

text \<open>
  C3 at a failing input: the list call for A1 returns the three items X41, X42, X43, and
  the detail call for X42 times out. \<^verbatim>\<open>get_webcam_locations\<close> returns the record of X41
  only: the item after the failed one is lost with it.
\<close>

theorem webcam_timeout_discards_later_items:
  "map (\<lambda>r. dict_get r ''webcam_id'' JNull)
     (fst (get_webcam_locations (\<lambda>a. Response 200 (Some (JObj [(''webcam'', JArr three_items)])))
             x42_times_out ''A1''))
   = [JStr ''X41''] \<and>
   snd (get_webcam_locations (\<lambda>a. Response 200 (Some (JObj [(''webcam'', JArr three_items)])))
             x42_times_out ''A1'')
   = Some RequestException"
  by (simp add: bast_defs)

text \<open>
  On the same network \<^verbatim>\<open>get_traffic_warnings_detailed\<close> skips X42 alone; in general its
  loop handles every item on its own.
\<close>

lemma warnings_timeout_skips_one_item:
  "get_traffic_warnings_detailed (\<lambda>a. Response 200 (Some (JObj [(''warning'', JArr three_items)])))
             x42_times_out (\<lambda>ident d. Inr d) ''A1''
   = ([cam_details, cam_details], None)"
  by (simp add: bast_defs)

lemma warning_loop_itemwise:
  "list_all (\<lambda>item. case item of JObj w \<Rightarrow> True | _ \<Rightarrow> False) items \<Longrightarrow>
   warning_loop detail process items acc =
     (acc @ List.map_filter (warning_of_item detail process) items, None)"
proof (induction items arbitrary: acc)
  case Nil
  then show ?case by (simp add: List.map_filter_simps)
next
  case (Cons item items)
  then show ?case
    by (simp add: warning_of_item_def List.map_filter_simps
        split: json.splits option.splits http_result.splits sum.splits)
qed

section \<open>Properties of the checkpoint file\<close>

lemma run_ops_Nil: "run_ops [] d = d"
  by (simp add: run_ops_def)

lemma run_ops_Open_w: "run_ops [Open_w path] d = d(path := Some Torn)"
  by (simp add: run_ops_def)

lemma run_ops_save_checkpoint_ops:
  "run_ops (save_checkpoint_ops tr listing now) d =
     d(checkpoint_file := Some (Doc (checkpoint_data tr listing now)))"
  by (simp add: save_checkpoint_ops_def run_ops_def)

lemma run_ops_save:
  "save_checkpoint tr listing now d = d(checkpoint_file := Some (Doc (checkpoint_data tr listing now)))"
  by (simp add: save_checkpoint_def run_ops_save_checkpoint_ops)

lemma load_after_save:
  "load_checkpoint (save_checkpoint tr listing now d) tr0 =
     tr0\<lparr>collected := collected tr, seen_ids := set (take 10000 listing)\<rparr>"
  by (simp add: run_ops_save load_checkpoint_def checkpoint_data_def)

lemma distinct_many_ids: "distinct many_ids"
  by (simp add: many_ids_def distinct_map inj_on_def)

lemma length_many_ids: "length many_ids = 10001"
  by (simp add: many_ids_def)

text \<open>
  C5 as stated fails: a tracker with 10001 seen ids is saved with its first 10000 only, so
  the set that is loaded back differs from the one saved.
\<close>

theorem checkpoint_round_trip_loses_ids:
  "seen_ids (load_checkpoint
               (save_checkpoint \<lparr>collected = [], seen_ids = set many_ids\<rparr> many_ids
                  ''2024-05-01T12:00:00'' no_files)
               init_tracker)
     \<noteq> seen_ids \<lparr>collected = [], seen_ids = set many_ids\<rparr>"
proof -
  have "card (set (take 10000 many_ids)) \<le> 10000"
    using card_length [of "take 10000 many_ids"] by simp
  moreover have "card (set many_ids) = 10001"
    using distinct_card [OF distinct_many_ids] length_many_ids by simp
  ultimately have "set (take 10000 many_ids) \<noteq> set many_ids"
    by auto
  then show ?thesis
    by (simp add: load_after_save)
qed

text \<open>
  C5, amended: loading right after saving returns the per-source counts that were saved,
  and as seen ids the first 10000 of the saved set in the order in which the set was
  listed: a subset of the saved set with \<open>min 10000 n\<close> of its \<open>n\<close> elements, and the
  saved set itself whenever that has at most 10000 elements. (The time stamp is written
  but not read back.)
\<close>

theorem checkpoint_round_trip:
  assumes "set listing = seen_ids tr" and "distinct listing"
  shows "collected (load_checkpoint (save_checkpoint tr listing now d) tr0) = collected tr \<and>
         seen_ids (load_checkpoint (save_checkpoint tr listing now d) tr0)
           = set (take 10000 listing) \<and>
         seen_ids (load_checkpoint (save_checkpoint tr listing now d) tr0) \<subseteq> seen_ids tr \<and>
         card (seen_ids (load_checkpoint (save_checkpoint tr listing now d) tr0))
           = min 10000 (card (seen_ids tr)) \<and>
         (card (seen_ids tr) \<le> 10000 \<longrightarrow>
            seen_ids (load_checkpoint (save_checkpoint tr listing now d) tr0) = seen_ids tr)"
proof -
  have c: "card (seen_ids tr) = length listing"
    using assms distinct_card by fastforce
  have sub: "set (take 10000 listing) \<subseteq> seen_ids tr"
    using assms(1) set_take_subset by fastforce
  have "card (set (take 10000 listing)) = length (take 10000 listing)"
    using assms(2) distinct_card distinct_take by blast
  then have card: "card (set (take 10000 listing)) = min 10000 (card (seen_ids tr))"
    using c by simp
  have "card (seen_ids tr) \<le> 10000 \<Longrightarrow> set (take 10000 listing) = seen_ids tr"
    using c assms(1) by simp
  with sub card show ?thesis
    by (simp add: load_after_save)
qed

theorem checkpoint_round_trip_witness:
  "collected (load_checkpoint
      (save_checkpoint \<lparr>collected = [(''reddit'', 2)], seen_ids = {''reddit_a'', ''reddit_b''}\<rparr>
         [''reddit_b'', ''reddit_a''] ''2024-05-01T12:00:00'' no_files) init_tracker)
     = [(''reddit'', 2)] \<and>
   seen_ids (load_checkpoint
      (save_checkpoint \<lparr>collected = [(''reddit'', 2)], seen_ids = {''reddit_a'', ''reddit_b''}\<rparr>
         [''reddit_b'', ''reddit_a''] ''2024-05-01T12:00:00'' no_files) init_tracker)
     = {''reddit_a'', ''reddit_b''}"
proof -
  let ?tr = "\<lparr>collected = [(''reddit'', 2)], seen_ids = {''reddit_a'', ''reddit_b''}\<rparr>"
  have h1: "set [''reddit_b'', ''reddit_a''] = seen_ids ?tr"
    by auto
  have h2: "distinct [''reddit_b'', ''reddit_a'']"
    by simp
  have h3: "card (seen_ids ?tr) \<le> 10000"
    by simp
  from checkpoint_round_trip [OF h1 h2, of "''2024-05-01T12:00:00''" no_files init_tracker] h3
  show ?thesis
    by (simp add: insert_commute)
qed

text \<open>
  C2 as stated fails: with an old checkpoint on disk, the execution of
  \<^verbatim>\<open>save_checkpoint\<close> that is interrupted after its first operation leaves a checkpoint
  file that is neither the old checkpoint nor the new one.
\<close>

theorem interrupted_save_leaves_torn_file:
  "\<not> (\<forall>k \<le> 2.
        run_ops (take k (save_checkpoint_ops init_tracker [] ''2024-05-02T12:00:00''))
          (no_files(checkpoint_file := Some (Doc old_checkpoint))) checkpoint_file
        \<in> {Some (Doc old_checkpoint),
            Some (Doc (checkpoint_data init_tracker [] ''2024-05-02T12:00:00''))})"
proof
  assume a: "\<forall>k \<le> 2.
        run_ops (take k (save_checkpoint_ops init_tracker [] ''2024-05-02T12:00:00''))
          (no_files(checkpoint_file := Some (Doc old_checkpoint))) checkpoint_file
        \<in> {Some (Doc old_checkpoint),
            Some (Doc (checkpoint_data init_tracker [] ''2024-05-02T12:00:00''))}"
  have "(1::nat) \<le> 2" by simp
  with a have "run_ops (take 1 (save_checkpoint_ops init_tracker [] ''2024-05-02T12:00:00''))
          (no_files(checkpoint_file := Some (Doc old_checkpoint))) checkpoint_file
        \<in> {Some (Doc old_checkpoint),
            Some (Doc (checkpoint_data init_tracker [] ''2024-05-02T12:00:00''))}"
    by blast
  then show False
    by (simp add: save_checkpoint_ops_def run_ops_def)
qed

text \<open>
  C2, amended: \<^verbatim>\<open>save_checkpoint\<close> writes into the destination file itself. At no point
  of its execution is any other file of the disk created or changed (there is no
  temporary file and no rename); its first operation leaves the checkpoint file torn,
  which is what an execution interrupted mid-write leaves behind and what
  \<^verbatim>\<open>load_checkpoint\<close> answers by keeping the tracker as it is (starting fresh); the
  completed execution leaves the new checkpoint.
\<close>

theorem save_checkpoint_writes_in_place:
  "(\<forall>k path. path \<noteq> checkpoint_file \<longrightarrow>
      run_ops (take k (save_checkpoint_ops tr listing now)) d path = d path) \<and>
   run_ops (take 0 (save_checkpoint_ops tr listing now)) d checkpoint_file = d checkpoint_file \<and>
   run_ops (take 1 (save_checkpoint_ops tr listing now)) d checkpoint_file = Some Torn \<and>
   (\<forall>k \<ge> 2. run_ops (take k (save_checkpoint_ops tr listing now)) d checkpoint_file
      = Some (Doc (checkpoint_data tr listing now))) \<and>
   save_checkpoint tr listing now d checkpoint_file = Some (Doc (checkpoint_data tr listing now)) \<and>
   load_checkpoint (run_ops (take 1 (save_checkpoint_ops tr listing now)) d) tr0 = tr0"
proof -
  have steps: "take k (save_checkpoint_ops tr listing now) =
      (if k = 0 then [] else if k = 1 then [Open_w checkpoint_file]
       else save_checkpoint_ops tr listing now)" for k
    by (cases k; cases "k - 1") (auto simp: save_checkpoint_ops_def)
  show ?thesis
    by (simp add: steps run_ops_Nil run_ops_Open_w run_ops_save_checkpoint_ops run_ops_save
        load_checkpoint_def)
qed

theorem save_checkpoint_writes_in_place_witness:
  "run_ops (take 1 (save_checkpoint_ops init_tracker [] ''2024-05-02T12:00:00''))
     (no_files(checkpoint_file := Some (Doc old_checkpoint))) ''germany_data/batch_1.csv''
     = None \<and>
   run_ops (take 1 (save_checkpoint_ops init_tracker [] ''2024-05-02T12:00:00''))
     (no_files(checkpoint_file := Some (Doc old_checkpoint))) checkpoint_file
     = Some Torn \<and>
   run_ops (take 2 (save_checkpoint_ops init_tracker [] ''2024-05-02T12:00:00''))
     (no_files(checkpoint_file := Some (Doc old_checkpoint))) checkpoint_file
     = Some (Doc (checkpoint_data init_tracker [] ''2024-05-02T12:00:00''))"
proof -
  let ?d = "no_files(checkpoint_file := Some (Doc old_checkpoint))"
  have h1: "''germany_data/batch_1.csv'' \<noteq> checkpoint_file"
    by (simp add: checkpoint_file_def)
  have h2: "(2::nat) \<ge> 2"
    by simp
  note w = save_checkpoint_writes_in_place
             [where tr = init_tracker and listing = "[]" and now = "''2024-05-02T12:00:00''"
                and d = ?d]
  from w h1 have a: "run_ops (take 1 (save_checkpoint_ops init_tracker [] ''2024-05-02T12:00:00''))
     ?d ''germany_data/batch_1.csv'' = ?d ''germany_data/batch_1.csv''"
    by blast
  from w h2 have b: "run_ops (take 2 (save_checkpoint_ops init_tracker [] ''2024-05-02T12:00:00''))
     ?d checkpoint_file = Some (Doc (checkpoint_data init_tracker [] ''2024-05-02T12:00:00''))"
    by blast
  from w have c: "run_ops (take 1 (save_checkpoint_ops init_tracker [] ''2024-05-02T12:00:00''))
     ?d checkpoint_file = Some Torn"
    by blast
  from a b c h1 show ?thesis
    by (simp add: no_files_def)
qed

section \<open>Properties of the scheduler\<close>

lemma collected_get_update_other:
  "s' \<noteq> s \<Longrightarrow> collected_get (update s c ids tr) s' = collected_get tr s'"
  by (simp add: collected_get_def update_def update_conv')

lemma sum_list_alist_update:
  "sum_list (map snd (AList.update k v al)) =
     sum_list (map snd al) - (case map_of al k of None \<Rightarrow> 0 | Some c \<Rightarrow> c) + (v::int)"
  by (induction al) auto

lemma get_total_update: "get_total (update s c ids tr) = get_total tr + c"
  by (simp add: get_total_def update_def collected_get_def sum_list_alist_update
      split: option.splits)










lemma stalled_update: "stalled tr \<Longrightarrow> stalled (update s (collected_get tr s' - collected_get tr s') {} tr)"
  by (cases "s = ''reddit''"; cases "s = ''wikipedia''"; cases "s = ''osm''";
      cases "s = ''news''"; cases "s = ''events''")
     (simp_all add: stalled_def get_total_update collected_get_update collected_get_update_other)

lemma stalled_update0: "stalled tr \<Longrightarrow> stalled (update s 0 {} tr)"
  using stalled_update [of tr s s] by simp

lemma silent_collectors:
  "reddit_collect_batch [] n tr = ([], update ''reddit'' 0 {} tr)"
  "wikipedia_collect_batch [] n tr = ([], update ''wikipedia'' 0 {} tr)"
  "osm_collect_batch [] n tr = ([], update ''osm'' 0 {} tr)"
  by (simp_all add: reddit_collect_batch_def wikipedia_collect_batch_def osm_collect_batch_def
      dedup_and_track_def slice_to_def)

lemma silent_iteration:
  assumes "stalled tr"
  shows "distribution_loop (silent_env n) SOURCE_DISTRIBUTION tr [] =
           ([], update ''osm'' 0 {} (update ''wikipedia'' 0 {} (update ''reddit'' 0 {} tr)))"
proof -
  let ?t1 = "update ''reddit'' 0 {} tr"
  let ?t2 = "update ''wikipedia'' 0 {} ?t1"
  let ?t3 = "update ''osm'' 0 {} ?t2"
  have s1: "stalled ?t1" and s2: "stalled ?t2" and s3: "stalled ?t3"
    using assms by (simp_all add: stalled_update0)
  have r: "distribution_loop (silent_env n) [(''news'', 2000), (''events'', 4000)] ?t3 []
             = ([], ?t3)"
    using s3 by (simp add: stalled_def Let_def)
  have o: "distribution_loop (silent_env n) [(''osm'', 3000), (''news'', 2000), (''events'', 4000)]
             ?t2 [] = ([], ?t3)"
    using s2 r by (simp add: stalled_def collect_source_def silent_env_def silent_collectors
        BATCH_SIZE_def Let_def)
  have w: "distribution_loop (silent_env n)
             [(''wikipedia'', 4000), (''osm'', 3000), (''news'', 2000), (''events'', 4000)]
             ?t1 [] = ([], ?t3)"
    using s1 o by (simp add: stalled_def collect_source_def silent_env_def silent_collectors
        BATCH_SIZE_def Let_def)
  show ?thesis
    using assms w
    by (simp add: SOURCE_DISTRIBUTION_def stalled_def collect_source_def silent_env_def
        silent_collectors BATCH_SIZE_def Let_def)
qed

lemma stalled_loop_body:
  assumes "stalled (progress st)"
  shows "stalled (progress (loop_body silent_env st))"
    and "all_posts (loop_body silent_env st) = all_posts st"
    and "batch_num (loop_body silent_env st) = batch_num st + 1"
  using assms by (simp_all add: loop_body_def Let_def silent_iteration stalled_update0)

lemma stalled_generators_done: "stalled (progress generators_done)"
  by (simp add: stalled_def generators_done_def collected_get_def get_total_def)

text \<open>
  C4 as stated fails: with the generators' quotas filled and every fetch coming back
  empty, an iteration produces no record and leaves the total at 6000, below the target,
  and the main loop never returns.
\<close>

theorem scheduler_spins_without_new_records:
  "get_total (progress generators_done) < TARGET_POSTS \<and>
   fst (distribution_loop (silent_env (batch_num generators_done + 1)) SOURCE_DISTRIBUTION
          (progress generators_done) []) = [] \<and>
   get_total (progress (loop_body silent_env generators_done))
     = get_total (progress generators_done) \<and>
   collect_loop silent_env generators_done = None"
proof -
  have never: "env = silent_env \<longrightarrow> \<not> stalled (progress st)"
    if r: "collect_loop env st = Some y" for env st y
  proof (rule collect_loop.raw_induct
      [where P = "\<lambda>env st y. env = silent_env \<longrightarrow> \<not> stalled (progress st)", OF _ r])
    fix f :: "(nat \<Rightarrow> batch_env) \<Rightarrow> scheduler \<Rightarrow> scheduler option" and env st y
    assume IH: "\<And>env st y. f env st = Some y \<Longrightarrow> env = silent_env \<longrightarrow> \<not> stalled (progress st)"
      and step: "(if get_total (progress st) < TARGET_POSTS
                  then if TARGET_POSTS \<le> get_total (progress (loop_body env st))
                       then Some (loop_body env st) else f env (loop_body env st)
                  else Some st) = Some y"
    show "env = silent_env \<longrightarrow> \<not> stalled (progress st)"
    proof (intro impI notI)
      assume e: "env = silent_env" and s: "stalled (progress st)"
      then have s': "stalled (progress (loop_body silent_env st))"
        by (simp add: stalled_loop_body)
      from s s' step e have "f silent_env (loop_body silent_env st) = Some y"
        by (simp add: stalled_def TARGET_POSTS_def)
      from IH [OF this] s' show False
        by simp
    qed
  qed
  have "collect_loop silent_env generators_done = None"
  proof (cases "collect_loop silent_env generators_done")
    case None
    then show ?thesis .
  next
    case (Some y)
    from never [OF this] stalled_generators_done show ?thesis
      by simp
  qed
  moreover have "get_total (progress (loop_body silent_env generators_done)) = 6000"
    using stalled_loop_body(1) [OF stalled_generators_done] by (simp add: stalled_def)
  moreover have "get_total (progress generators_done) = 6000"
    using stalled_generators_done by (simp add: stalled_def)
  ultimately show ?thesis
    using silent_iteration [OF stalled_generators_done]
    by (simp add: TARGET_POSTS_def)
qed

lemma collect_loop_result:
  assumes r: "collect_loop env st = Some st'"
  shows "TARGET_POSTS \<le> get_total (progress st')"
proof (rule collect_loop.raw_induct
    [where P = "\<lambda>env st st'. TARGET_POSTS \<le> get_total (progress st')", OF _ r])
  fix f :: "(nat \<Rightarrow> batch_env) \<Rightarrow> scheduler \<Rightarrow> scheduler option" and env st y
  assume IH: "\<And>env st y. f env st = Some y \<Longrightarrow> TARGET_POSTS \<le> get_total (progress y)"
    and step: "(if get_total (progress st) < TARGET_POSTS
                then if TARGET_POSTS \<le> get_total (progress (loop_body env st))
                     then Some (loop_body env st) else f env (loop_body env st)
                else Some st) = Some y"
  from step IH show "TARGET_POSTS \<le> get_total (progress y)"
    by (auto split: if_splits)
qed

text \<open>
  C4, amended: the main loop has no test for an iteration without new records; its only
  exit is a total that has reached the target. An iteration that leaves the total below
  the target, as one without new records does, is followed by the next iteration; the
  loop returns at once when the total is at the target, returns after the iteration that
  brings it there, and whenever it returns the total is at least the target.
\<close>

theorem scheduler_exits_only_at_target:
  "(get_total (progress st) < TARGET_POSTS \<and>
    get_total (progress (loop_body env st)) < TARGET_POSTS \<longrightarrow>
      collect_loop env st = collect_loop env (loop_body env st)) \<and>
   (get_total (progress st) < TARGET_POSTS \<and>
    TARGET_POSTS \<le> get_total (progress (loop_body env st)) \<longrightarrow>
      collect_loop env st = Some (loop_body env st)) \<and>
   (TARGET_POSTS \<le> get_total (progress st) \<longrightarrow> collect_loop env st = Some st) \<and>
   (\<forall>st'. collect_loop env st = Some st' \<longrightarrow> TARGET_POSTS \<le> get_total (progress st'))"
  using collect_loop_result [of env st]
  by (subst (1 2 3) collect_loop.simps) simp

theorem scheduler_exits_only_at_target_witness:
  "collect_loop silent_env generators_done
     = collect_loop silent_env (loop_body silent_env generators_done) \<and>
   collect_loop silent_env (generators_done\<lparr>progress := \<lparr>collected = [(''events'', 20000)],
        seen_ids = {}\<rparr>\<rparr>)
     = Some (generators_done\<lparr>progress := \<lparr>collected = [(''events'', 20000)], seen_ids = {}\<rparr>\<rparr>)"
proof -
  let ?full = "generators_done\<lparr>progress := \<lparr>collected = [(''events'', 20000)], seen_ids = {}\<rparr>\<rparr>"
  have h1: "get_total (progress generators_done) < TARGET_POSTS"
    using stalled_generators_done by (simp add: stalled_def TARGET_POSTS_def)
  have h2: "get_total (progress (loop_body silent_env generators_done)) < TARGET_POSTS"
    using stalled_loop_body(1) [OF stalled_generators_done]
    by (simp add: stalled_def TARGET_POSTS_def)
  have h3: "TARGET_POSTS \<le> get_total (progress ?full)"
    by (simp add: get_total_def TARGET_POSTS_def)
  from scheduler_exits_only_at_target [of generators_done silent_env] h1 h2
  have a: "collect_loop silent_env generators_done
             = collect_loop silent_env (loop_body silent_env generators_done)"
    by blast
  from scheduler_exits_only_at_target [of ?full silent_env] h3
  have b: "collect_loop silent_env ?full = Some ?full"
    by blast
  from a b show ?thesis
    by simp
qed

section \<open>Properties of the batch files\<close>

lemma round6_default_latitude: "round6 (5252 / 100) = 5252 / 100"
  by code_simp

lemma round6_default_longitude: "round6 (13405 / 1000) = 13405 / 1000"
  by code_simp

lemma write_rows_rows:
  "\<exists>rows. fst (write_rows py now posts written) = written @ rows \<and>
          length rows \<le> length posts \<and>
          (\<forall>i < length rows. make_row py now (posts ! i) = Inr (rows ! i)) \<and>
          (snd (write_rows py now posts written) = None \<longrightarrow> length rows = length posts)"
proof (induction posts arbitrary: written)
  case Nil
  then show ?case by simp
next
  case (Cons post posts)
  show ?case
  proof (cases "make_row py now post")
    case (Inl e)
    then show ?thesis by simp
  next
    case (Inr row)
    from Cons.IH [of "written @ [row]"] obtain rows where
      r1: "fst (write_rows py now posts (written @ [row])) = (written @ [row]) @ rows" and
      r2: "length rows \<le> length posts" and
      r3: "\<forall>i < length rows. make_row py now (posts ! i) = Inr (rows ! i)" and
      r4: "snd (write_rows py now posts (written @ [row])) = None \<longrightarrow> length rows = length posts"
      by (elim exE conjE)
    have "make_row py now ((post # posts) ! i) = Inr ((row # rows) ! i)"
      if "i < length (row # rows)" for i
    proof (cases i)
      case 0
      with Inr show ?thesis by simp
    next
      case (Suc j)
      with that r3 show ?thesis by simp
    qed
    then have r3': "\<forall>i < length (row # rows).
        make_row py now ((post # posts) ! i) = Inr ((row # rows) ! i)"
      by simp
    have "fst (write_rows py now (post # posts) written) = written @ (row # rows)"
      using Inr r1 by simp
    moreover have "length (row # rows) \<le> length (post # posts)"
      using r2 by simp
    moreover have "snd (write_rows py now (post # posts) written) = None \<longrightarrow>
        length (row # rows) = length (post # posts)"
      using Inr r4 by simp
    ultimately show ?thesis
      using r3' by (intro exI [of _ "row # rows"] conjI)
  qed
qed

lemma save_batch_row:
  assumes "i < length (fst (save_batch py now posts))"
  shows "i < length posts \<and> make_row py now (posts ! i) = Inr (fst (save_batch py now posts) ! i)"
proof -
  from write_rows_rows [of py now posts "[]"] obtain rows where
    r: "fst (save_batch py now posts) = rows" "length rows \<le> length posts"
       "\<forall>i < length rows. make_row py now (posts ! i) = Inr (rows ! i)"
    unfolding save_batch_def by (elim exE conjE) simp
  with assms show ?thesis
    by simp
qed

lemma make_row_coordinates:
  assumes "make_row py now post = Inr row"
  shows "\<exists>lat lon.
           py_float py (dict_get post ''latitude'' (JFloat (Finite (5252 / 100)))) = Inr lat \<and>
           py_float py (dict_get post ''longitude'' (JFloat (Finite (13405 / 1000)))) = Inr lon \<and>
           c_latitude row = round6f lat \<and> c_longitude row = round6f lon"
  using assms by (auto simp: make_row_def split: sum.splits)

lemma round6f_cases:
  "(\<exists>m. round6f x = Finite (of_int m / 1000000)) \<or> (x \<in> {NaN, PosInf, NegInf} \<and> round6f x = x)"
  by (cases x) (auto simp: round6_def)

text \<open>
  C10 as stated fails: a post whose latitude is the float \<^verbatim>\<open>nan\<close> gets a row, and the
  latitude of that row is \<^verbatim>\<open>nan\<close>, not a number with six decimal places.
\<close>

theorem nan_latitude_is_written:
  "length (fst (save_batch plain_builtins ''2024-05-02T12:00:00'' [nan_post])) = 1 \<and>
   c_latitude (fst (save_batch plain_builtins ''2024-05-02T12:00:00'' [nan_post]) ! 0) = NaN \<and>
   \<not> (\<exists>m. c_latitude (fst (save_batch plain_builtins ''2024-05-02T12:00:00'' [nan_post]) ! 0)
             = Finite (of_int m / 1000000))"
  by (simp add: save_batch_def make_row_def dict_get_def nan_post_def)

text \<open>
  C10, amended: every row that \<^verbatim>\<open>save_batch\<close> writes belongs to the post at the same
  position and carries a latitude and a longitude, namely the post's value, or the default
  52.52 / 13.405 when the post lacks the key, converted by \<^verbatim>\<open>float\<close> and passed through
  \<^verbatim>\<open>round(., 6)\<close>. Such a cell is a multiple of \<open>10\<^sup>-\<^sup>6\<close> when the converted value is finite,
  and is \<^verbatim>\<open>nan\<close>, \<^verbatim>\<open>inf\<close> or \<^verbatim>\<open>-inf\<close> when the converted value is that. A post without the
  key \<^verbatim>\<open>latitude\<close> gets 52.52, one without \<^verbatim>\<open>longitude\<close> gets 13.405. (A post whose
  coordinate \<^verbatim>\<open>float\<close> rejects gets no row: \<^verbatim>\<open>save_batch\<close> raises there.)
\<close>

theorem batch_rows_have_coordinates:
  assumes "i < length (fst (save_batch py now posts))"
  shows "i < length posts \<and>
         (\<exists>lat lon.
            py_float py (dict_get (posts ! i) ''latitude'' (JFloat (Finite (5252 / 100)))) = Inr lat \<and>
            py_float py (dict_get (posts ! i) ''longitude'' (JFloat (Finite (13405 / 1000)))) = Inr lon \<and>
            c_latitude (fst (save_batch py now posts) ! i) = round6f lat \<and>
            c_longitude (fst (save_batch py now posts) ! i) = round6f lon \<and>
            ((\<exists>m. round6f lat = Finite (of_int m / 1000000)) \<or>
             (lat \<in> {NaN, PosInf, NegInf} \<and> round6f lat = lat)) \<and>
            ((\<exists>n. round6f lon = Finite (of_int n / 1000000)) \<or>
             (lon \<in> {NaN, PosInf, NegInf} \<and> round6f lon = lon))) \<and>
         (map_of (posts ! i) ''latitude'' = None \<longrightarrow>
            c_latitude (fst (save_batch py now posts) ! i) = Finite (5252 / 100)) \<and>
         (map_of (posts ! i) ''longitude'' = None \<longrightarrow>
            c_longitude (fst (save_batch py now posts) ! i) = Finite (13405 / 1000))"
proof -
  let ?row = "fst (save_batch py now posts) ! i"
  from save_batch_row [OF assms] have i: "i < length posts"
    and m: "make_row py now (posts ! i) = Inr ?row"
    by simp_all
  from make_row_coordinates [OF m] obtain lat lon where
    c: "py_float py (dict_get (posts ! i) ''latitude'' (JFloat (Finite (5252 / 100)))) = Inr lat"
       "py_float py (dict_get (posts ! i) ''longitude'' (JFloat (Finite (13405 / 1000)))) = Inr lon"
       "c_latitude ?row = round6f lat" "c_longitude ?row = round6f lon"
    by (elim exE conjE)
  have dlat: "c_latitude ?row = Finite (5252 / 100)" if "map_of (posts ! i) ''latitude'' = None"
  proof -
    have "dict_get (posts ! i) ''latitude'' (JFloat (Finite (5252 / 100)))
            = JFloat (Finite (5252 / 100))"
      by (simp only: dict_get_def that option.case)
    with c(1) have "Inr (Finite (5252 / 100)) = (Inr lat :: py_error + pyfloat)"
      by (simp only: py_float.simps)
    then have "lat = Finite (5252 / 100)"
      by (simp only: sum.inject)
    with c(3) show ?thesis
      by (simp only: round6f.simps round6_default_latitude)
  qed
  have dlon: "c_longitude ?row = Finite (13405 / 1000)" if "map_of (posts ! i) ''longitude'' = None"
  proof -
    have "dict_get (posts ! i) ''longitude'' (JFloat (Finite (13405 / 1000)))
            = JFloat (Finite (13405 / 1000))"
      by (simp only: dict_get_def that option.case)
    with c(2) have "Inr (Finite (13405 / 1000)) = (Inr lon :: py_error + pyfloat)"
      by (simp only: py_float.simps)
    then have "lon = Finite (13405 / 1000)"
      by (simp only: sum.inject)
    with c(4) show ?thesis
      by (simp only: round6f.simps round6_default_longitude)
  qed
  have coords: "\<exists>lat lon.
            py_float py (dict_get (posts ! i) ''latitude'' (JFloat (Finite (5252 / 100)))) = Inr lat \<and>
            py_float py (dict_get (posts ! i) ''longitude'' (JFloat (Finite (13405 / 1000)))) = Inr lon \<and>
            c_latitude ?row = round6f lat \<and> c_longitude ?row = round6f lon \<and>
            ((\<exists>m. round6f lat = Finite (of_int m / 1000000)) \<or>
             (lat \<in> {NaN, PosInf, NegInf} \<and> round6f lat = lat)) \<and>
            ((\<exists>n. round6f lon = Finite (of_int n / 1000000)) \<or>
             (lon \<in> {NaN, PosInf, NegInf} \<and> round6f lon = lon))"
    using c round6f_cases [of lat] round6f_cases [of lon]
    by (intro exI [of _ lat] exI [of _ lon] conjI)
  from dlat have dlat': "map_of (posts ! i) ''latitude'' = None \<longrightarrow>
      c_latitude ?row = Finite (5252 / 100)"
    by (rule impI)
  from dlon have dlon': "map_of (posts ! i) ''longitude'' = None \<longrightarrow>
      c_longitude ?row = Finite (13405 / 1000)"
    by (rule impI)
  show ?thesis
    by (intro conjI i coords dlat' dlon')
qed

lemma save_batch_bare_post:
  "length (fst (save_batch plain_builtins ''2024-05-02T12:00:00'' [bare_post])) = 1"
  by (simp add: save_batch_def make_row_def dict_get_def bare_post_def)

theorem batch_rows_have_coordinates_witness:
  "c_latitude (fst (save_batch plain_builtins ''2024-05-02T12:00:00'' [bare_post]) ! 0)
     = Finite (5252 / 100) \<and>
   c_longitude (fst (save_batch plain_builtins ''2024-05-02T12:00:00'' [bare_post]) ! 0)
     = Finite (13405 / 1000)"
proof -
  have h: "0 < length (fst (save_batch plain_builtins ''2024-05-02T12:00:00'' [bare_post]))"
    by (simp add: save_batch_bare_post)
  have la: "map_of ([bare_post] ! 0) ''latitude'' = None"
    and lo: "map_of ([bare_post] ! 0) ''longitude'' = None"
    by (simp_all add: bare_post_def)
  note w = batch_rows_have_coordinates [OF h]
  from w [THEN conjunct2, THEN conjunct2, THEN conjunct1, rule_format, OF la]
       w [THEN conjunct2, THEN conjunct2, THEN conjunct2, rule_format, OF lo]
  show ?thesis
    by (rule conjI)
qed

text \<open>The posts that the collectors build are all written.\<close>

lemma save_batch_collected_posts:
  "snd (write_rows py now (map post_dict ps) written) = None"
  by (induction ps arbitrary: written) (simp_all add: make_row_def post_dict_def dict_get_def)

end
